theory Spec2Isabelle
  imports Complex_Main
begin

section \<open>TaskFlow backend: data model\<close>

text \<open>
  The routers under \<open>backend/app/routers\<close> are embedded as pure functions over explicit
  tables. A table is the list of its rows, a nullable column is an \<open>option\<close>, a raised
  \<open>HTTPException\<close> is the left summand of the outcome, and every handler returns its
  outcome together with the store as it is after the call. Timestamps are seconds on the
  real line. The scores of \<open>analytics.py\<close> are read in exact arithmetic on the reals;
  the change helper of \<open>department_stats.py\<close>, whose result hangs on the rounding of
  its float operations, is read in binary64.
\<close>

datatype error =
    HTTPException int string
  | KeyError
  | ValueError
  | RecursionError

fun status_code :: "error \<Rightarrow> int" where
  "status_code (HTTPException code detail) = code"
| "status_code KeyError = 500"
| "status_code ValueError = 500"
| "status_code RecursionError = 500"

text \<open>\<open>PriorityEnum\<close> of \<open>tasks.py\<close>; the column is \<open>Enum(PriorityEnum)\<close>.\<close>

datatype priority = Critical | High | Medium | Low

text \<open>
  A row of \<open>task_assignments\<close> (\<open>TaskAssignment\<close>). The status is the string the
  routers compare and store: \<open>To Do\<close>, \<open>In Progress\<close>, \<open>Under Review\<close>,
  \<open>Completed\<close>. The column \<open>created_at\<close>, which no handler below writes after the
  insert, is left out.
\<close>

record task_assignment =
  ta_id :: int
  task_id :: int
  assigned_to :: int
  status :: string
  progress :: int
  comments :: "string option"
  started_at :: "real option"
  completed_at :: "real option"
  version :: int
  updated_at :: real

text \<open>
  A row of \<open>tasks\<close> (\<open>Task\<close>), with the columns the handlers below read or write;
  \<open>subdepartment_id\<close> is the column \<open>subdepartments.py\<close> filters on.
\<close>

record task =
  t_id :: int
  t_department_id :: int
  t_subdepartment_id :: "int option"
  t_priority :: priority
  t_version :: int
  t_updated_at :: real

section \<open>Change over period (\<open>department_stats.py\<close>)\<close>

text \<open>Python's \<open>int()\<close> on a float drops the fractional part (rounds toward zero).\<close>

definition py_int :: "real \<Rightarrow> int" where
  "py_int x = (if 0 \<le> x then floor x else ceiling x)"

text \<open>
  Python floats are binary64. \<open>binary64 x\<close> is the binary64 value nearest to the real
  \<open>x\<close>, ties going to the even significand: the result of every float operation on
  the exact result \<open>x\<close>. The significand has 53 bits; the exponent range is taken
  unbounded (no overflow, no subnormal numbers), which the quotients of row counts below
  never leave.
\<close>

definition round_half_even :: "real \<Rightarrow> int" where
  "round_half_even m =
     (let f = floor m; r = m - of_int f
      in if r < 1 / 2 then f else if r > 1 / 2 then f + 1 else if even f then f else f + 1)"

definition binary64 :: "real \<Rightarrow> real" where
  "binary64 x =
     (if x = 0 then 0
      else let e = floor (log 2 \<bar>x\<bar>) - 52
           in sgn x * of_int (round_half_even (\<bar>x\<bar> / 2 powr of_int e)) * 2 powr of_int e)"

text \<open>
  \<^verbatim>\<open>
  def calc_change(current: int, previous: int) -> int:
      if previous == 0:
          return 100 if current > 0 else 0
      return int(((current - previous) / previous) * 100)
  \<close>
  The division of two integers is the correctly rounded quotient, and the product with
  \<open>100\<close> is rounded again.
\<close>

definition calc_change :: "int \<Rightarrow> int \<Rightarrow> int" where
  "calc_change current previous =
     (if previous = 0 then (if current > 0 then 100 else 0)
      else py_int (binary64
             (binary64 (real_of_int (current - previous) / real_of_int previous) * 100)))"

section \<open>Scores (\<open>analytics.py\<close>)\<close>

text \<open>
  \<^verbatim>\<open>
  def calculate_efficiency_score(assignments: List[models.TaskAssignment]) -> float:
      if not assignments:
          return 0
      priority_weights = {'Critical': 4, 'High': 3, 'Medium': 2, 'Low': 1}
      scores = []
      for assignment in assignments:
          if assignment.completed_at and assignment.started_at:
              actual_duration = (assignment.completed_at - assignment.started_at).total_seconds()
              estimated_duration = 432000  # 5 days in seconds (default estimation)
              priority_weight = priority_weights[assignment.task.priority]
              efficiency = min(estimated_duration / actual_duration if actual_duration > 0 else 1, 2)
              weighted_score = efficiency * priority_weight
              scores.append(weighted_score)
      return sum(scores) / len(scores) * 25 if scores else 0
  \<close>
  An element of \<open>assignments\<close> is the pair of the assignment row and its
  \<open>assignment.task\<close>.
\<close>

fun priority_weights :: "priority \<Rightarrow> real" where
  "priority_weights Critical = 4"
| "priority_weights High = 3"
| "priority_weights Medium = 2"
| "priority_weights Low = 1"

definition weighted_score :: "real \<Rightarrow> real \<Rightarrow> priority \<Rightarrow> real" where
  "weighted_score started completed p =
     (let actual_duration = completed - started;
          estimated_duration = 432000;
          priority_weight = priority_weights p;
          efficiency = min (if actual_duration > 0 then estimated_duration / actual_duration else 1) 2
      in efficiency * priority_weight)"

fun efficiency_loop :: "(task_assignment \<times> task) list \<Rightarrow> real list \<Rightarrow> real list" where
  "efficiency_loop [] scores = scores"
| "efficiency_loop ((assignment, tk) # rest) scores =
     (case completed_at assignment of
        None \<Rightarrow> efficiency_loop rest scores
      | Some completed \<Rightarrow>
          (case started_at assignment of
             None \<Rightarrow> efficiency_loop rest scores
           | Some started \<Rightarrow>
               efficiency_loop rest (scores @ [weighted_score started completed (t_priority tk)])))"

definition calculate_efficiency_score :: "(task_assignment \<times> task) list \<Rightarrow> real" where
  "calculate_efficiency_score assignments =
     (if assignments = [] then 0
      else let scores = efficiency_loop assignments []
           in if scores \<noteq> [] then sum_list scores / real (length scores) * 25 else 0)"

text \<open>
  \<^verbatim>\<open>
  def calculate_workload_score(active_tasks: int, weighted_load: int) -> float:
      base_score = min(active_tasks * 10, 100)
      weight_factor = min(weighted_load / active_tasks if active_tasks > 0 else 0, 2)
      return base_score * weight_factor
  \<close>
\<close>

definition calculate_workload_score :: "int \<Rightarrow> int \<Rightarrow> real" where
  "calculate_workload_score active_tasks weighted_load =
     (let base_score = min (active_tasks * 10) 100;
          weight_factor =
            min (if active_tasks > 0
                 then real_of_int weighted_load / real_of_int active_tasks else 0) 2
      in real_of_int base_score * weight_factor)"

text \<open>
  \<^verbatim>\<open>
  team_workload = db.query(
      models.User.id,
      models.User.display_name,
      func.count(models.TaskAssignment.id).label('active_tasks'),
      func.sum(case([(models.Task.priority == 'Critical', 3),
                    (models.Task.priority == 'High', 2),
                    (models.Task.priority == 'Medium', 1)], else_=0)).label('weighted_load')
  ).join(models.TaskAssignment).join(models.Task).filter(
      models.User.department_id == current_user.department_id,
      models.TaskAssignment.status.in_(['To Do', 'In Progress'])
  ).group_by(models.User.id, models.User.display_name).all()
  return {"workload_data": [
      {"user_id": user.id, "display_name": user.display_name,
       "active_tasks": metrics.active_tasks, "weighted_load": metrics.weighted_load,
       "workload_score": calculate_workload_score(metrics.active_tasks, metrics.weighted_load)}
      for user, metrics in team_workload]}
  \<close>
  \<open>joined\<close> is the join of users, their assignments and the assignments' tasks, one row
  per assignment. \<open>team_workload\<close> is the grouped query: one row of four columns per
  user of the department with an assignment in \<open>To Do\<close> or \<open>In Progress\<close>. The
  comprehension unpacks every such row into the two names \<open>user, metrics\<close>, which
  raises \<open>ValueError\<close> at the first row.
\<close>

record workload_row =
  wl_user_id :: int
  wl_display_name :: string
  wl_department_id :: int
  wl_status :: string
  wl_priority :: priority

fun load_case :: "priority \<Rightarrow> int" where
  "load_case Critical = 3"
| "load_case High = 2"
| "load_case Medium = 1"
| "load_case Low = 0"

definition team_workload :: "workload_row list \<Rightarrow> int \<Rightarrow> (int \<times> string \<times> int \<times> int) list" where
  "team_workload joined department_id =
     (let rows = filter (\<lambda>r. wl_department_id r = department_id
                              \<and> wl_status r \<in> set [''To Do'', ''In Progress'']) joined;
          groups = remdups (map (\<lambda>r. (wl_user_id r, wl_display_name r)) rows)
      in map (\<lambda>(uid, name).
                (let grp = filter (\<lambda>r. wl_user_id r = uid \<and> wl_display_name r = name) rows
                 in (uid, name, int (length grp),
                     sum_list (map (\<lambda>r. load_case (wl_priority r)) grp))))
           groups)"

definition get_workload_distribution ::
  "workload_row list \<Rightarrow> int \<Rightarrow> error + (int \<times> string \<times> int \<times> int \<times> real) list" where
  "get_workload_distribution joined department_id =
     (case team_workload joined department_id of
        [] \<Rightarrow> Inr []
      | row # rest \<Rightarrow> Inl ValueError)"

section \<open>Assignment updates (\<open>task_assignments.py\<close>)\<close>

text \<open>
  The table \<open>task_assignments\<close> is the list of its rows. \<open>single\<close> is the read
  \<open>.select(...).eq("id", assignment_id).single().execute()\<close>, whose \<open>data\<close> the handlers
  test for emptiness; \<open>update_eq\<close> is \<open>.update(updates).eq("id", assignment_id).execute()\<close>,
  which writes the same columns into every row of that id; \<open>response_data\<close> is the
  \<open>data\<close> of that write, the rows it touched. The handlers read the clock several
  times in one call; the model passes one reading, \<open>now\<close>.
\<close>

definition single :: "task_assignment list \<Rightarrow> int \<Rightarrow> task_assignment option" where
  "single tbl assignment_id = find (\<lambda>r. ta_id r = assignment_id) tbl"

definition update_eq ::
  "(task_assignment \<Rightarrow> task_assignment) \<Rightarrow> int \<Rightarrow> task_assignment list \<Rightarrow> task_assignment list" where
  "update_eq updates assignment_id tbl =
     map (\<lambda>r. if ta_id r = assignment_id then updates r else r) tbl"

definition response_data :: "task_assignment list \<Rightarrow> int \<Rightarrow> task_assignment list" where
  "response_data tbl assignment_id = filter (\<lambda>r. ta_id r = assignment_id) tbl"

text \<open>The request body \<open>TaskAssignmentBase\<close>; \<open>version\<close> is the version the caller presents.\<close>

record TaskAssignmentBase =
  b_task_id :: int
  b_assigned_to :: int
  b_status :: string
  b_progress :: int
  b_comments :: "string option"
  b_started_at :: "real option"
  b_completed_at :: "real option"
  b_version :: int

text \<open>
  \<^verbatim>\<open>
  current = supabase.table("task_assignments").select("version").eq("id", assignment_id).single().execute()
  if not current.data:
      raise HTTPException(status_code=404, detail="Assignment not found")
  response = supabase.table("task_assignments").update({
      **assignment.dict(),
      "version": current.data["version"] + 1,
      "updated_at": datetime.now().isoformat()
  }).eq("id", assignment_id).execute()
  return response.data
  \<close>
  The later key \<open>"version"\<close> of the dictionary replaces the one of \<open>assignment.dict()\<close>.
\<close>

definition update_task_assignment ::
  "real \<Rightarrow> task_assignment list \<Rightarrow> int \<Rightarrow> TaskAssignmentBase
   \<Rightarrow> (error + task_assignment list) \<times> task_assignment list" where
  "update_task_assignment now tbl assignment_id assignment =
     (case single tbl assignment_id of
        None \<Rightarrow> (Inl (HTTPException 404 ''Assignment not found''), tbl)
      | Some current \<Rightarrow>
          (let tbl' = update_eq
                 (\<lambda>r. r\<lparr>task_id := b_task_id assignment,
                         assigned_to := b_assigned_to assignment,
                         status := b_status assignment,
                         progress := b_progress assignment,
                         comments := b_comments assignment,
                         started_at := b_started_at assignment,
                         completed_at := b_completed_at assignment,
                         version := version current + 1,
                         updated_at := now\<rparr>)
                 assignment_id tbl
           in (Inr (response_data tbl' assignment_id), tbl')))"

text \<open>
  \<^verbatim>\<open>
  if status not in ["To Do", "In Progress", "Under Review", "Completed"]:
      raise HTTPException(status_code=400, detail="Invalid status")
  current = supabase.table("task_assignments").select("*").eq("id", assignment_id).single().execute()
  if not current.data:
      raise HTTPException(status_code=404, detail="Assignment not found")
  updates = {"status": status, "version": current.data["version"] + 1,
             "updated_at": datetime.now().isoformat()}
  if status == "In Progress" and not current.data["started_at"]:
      updates["started_at"] = datetime.now().isoformat()
  elif status == "Completed" and not current.data["completed_at"]:
      updates["completed_at"] = datetime.now().isoformat()
  response = supabase.table("task_assignments").update(updates).eq("id", assignment_id).execute()
  return response.data
  \<close>
\<close>

definition status_updates ::
  "real \<Rightarrow> string \<Rightarrow> task_assignment \<Rightarrow> task_assignment \<Rightarrow> task_assignment" where
  "status_updates now new_status current r =
     (let r1 = r\<lparr>status := new_status, version := version current + 1, updated_at := now\<rparr>
      in if new_status = ''In Progress'' \<and> started_at current = None
         then r1\<lparr>started_at := Some now\<rparr>
         else if new_status = ''Completed'' \<and> completed_at current = None
         then r1\<lparr>completed_at := Some now\<rparr>
         else r1)"

definition update_assignment_status ::
  "real \<Rightarrow> task_assignment list \<Rightarrow> int \<Rightarrow> string
   \<Rightarrow> (error + task_assignment list) \<times> task_assignment list" where
  "update_assignment_status now tbl assignment_id new_status =
     (if new_status \<notin> set [''To Do'', ''In Progress'', ''Under Review'', ''Completed'']
      then (Inl (HTTPException 400 ''Invalid status''), tbl)
      else case single tbl assignment_id of
        None \<Rightarrow> (Inl (HTTPException 404 ''Assignment not found''), tbl)
      | Some current \<Rightarrow>
          (let tbl' = update_eq (status_updates now new_status current) assignment_id tbl
           in (Inr (response_data tbl' assignment_id), tbl')))"

text \<open>
  \<^verbatim>\<open>
  if not 0 <= progress <= 100:
      raise HTTPException(status_code=400, detail="Progress must be between 0 and 100")
  current = supabase.table("task_assignments").select("version").eq("id", assignment_id).single().execute()
  if not current.data:
      raise HTTPException(status_code=404, detail="Assignment not found")
  response = supabase.table("task_assignments").update({
      "progress": progress, "version": current.data["version"] + 1,
      "updated_at": datetime.now().isoformat()}).eq("id", assignment_id).execute()
  return response.data
  \<close>
\<close>

definition update_assignment_progress ::
  "real \<Rightarrow> task_assignment list \<Rightarrow> int \<Rightarrow> int
   \<Rightarrow> (error + task_assignment list) \<times> task_assignment list" where
  "update_assignment_progress now tbl assignment_id new_progress =
     (if \<not> (0 \<le> new_progress \<and> new_progress \<le> 100)
      then (Inl (HTTPException 400 ''Progress must be between 0 and 100''), tbl)
      else case single tbl assignment_id of
        None \<Rightarrow> (Inl (HTTPException 404 ''Assignment not found''), tbl)
      | Some current \<Rightarrow>
          (let tbl' = update_eq
                 (\<lambda>r. r\<lparr>progress := new_progress, version := version current + 1,
                         updated_at := now\<rparr>)
                 assignment_id tbl
           in (Inr (response_data tbl' assignment_id), tbl')))"

section \<open>Task status (\<open>tasks.py\<close>)\<close>

text \<open>
  \<^verbatim>\<open>
  task = db.query(models.Task).filter(models.Task.id == task_id).first()
  if not task:
      raise HTTPException(status_code=404, detail="Task not found")
  current_time = datetime.utcnow()
  progress = {'To Do': 0, 'In Progress': 25, 'Under Review': 75, 'Completed': 100}[status_update.status]
  for assignment in task.task_assignments:
      assignment.status = status_update.status
      assignment.progress = progress
      assignment.updated_at = current_time
      if status_update.status == 'In Progress' and not assignment.started_at:
          assignment.started_at = current_time
      elif status_update.status == 'Completed':
          assignment.completed_at = current_time
  if status_update.status == 'Completed':
      task.version += 1
      task.updated_at = current_time
  for assignment in task.task_assignments:
      notification = models.Notification(user_id=assignment.assigned_to, task_id=task_id,
          type='push', subject='Task Status Updated', message=...)
      db.add(notification)
  db.commit()
  db.refresh(task)
  return task
  \<close>
  \<open>task.task_assignments\<close> are the assignment rows whose \<open>task_id\<close> is the task's id.
  The formatted \<open>message\<close> of a notification is left out of its row.
\<close>

record notification =
  n_user_id :: int
  n_task_id :: int
  n_type :: string
  n_subject :: string

record store =
  tasks :: "task list"
  task_assignments :: "task_assignment list"
  notifications :: "notification list"

fun status_progress :: "string \<Rightarrow> int option" where
  "status_progress s =
     (if s = ''To Do'' then Some 0
      else if s = ''In Progress'' then Some 25
      else if s = ''Under Review'' then Some 75
      else if s = ''Completed'' then Some 100
      else None)"

declare status_progress.simps [simp del]

definition set_assignment_status ::
  "real \<Rightarrow> string \<Rightarrow> int \<Rightarrow> task_assignment \<Rightarrow> task_assignment" where
  "set_assignment_status current_time new_status new_progress assignment =
     (let a1 = assignment\<lparr>status := new_status, progress := new_progress,
                          updated_at := current_time\<rparr>
      in if new_status = ''In Progress'' \<and> started_at assignment = None
         then a1\<lparr>started_at := Some current_time\<rparr>
         else if new_status = ''Completed''
         then a1\<lparr>completed_at := Some current_time\<rparr>
         else a1)"

definition update_task_status ::
  "real \<Rightarrow> store \<Rightarrow> int \<Rightarrow> string \<Rightarrow> (error + task) \<times> store" where
  "update_task_status current_time db tid new_status =
     (case find (\<lambda>t. t_id t = tid) (tasks db) of
        None \<Rightarrow> (Inl (HTTPException 404 ''Task not found''), db)
      | Some tk \<Rightarrow>
          (case status_progress new_status of
             None \<Rightarrow> (Inl KeyError, db)
           | Some new_progress \<Rightarrow>
               (let assignments' =
                      map (\<lambda>a. if task_id a = tid
                                then set_assignment_status current_time new_status new_progress a
                                else a)
                        (task_assignments db);
                    tk' = (if new_status = ''Completed''
                           then tk\<lparr>t_version := t_version tk + 1, t_updated_at := current_time\<rparr>
                           else tk);
                    tasks' = map (\<lambda>t. if t_id t = tid then tk' else t) (tasks db);
                    added = map (\<lambda>a. \<lparr>n_user_id = assigned_to a, n_task_id = tid,
                                        n_type = ''push'', n_subject = ''Task Status Updated''\<rparr>)
                              (filter (\<lambda>a. task_id a = tid) assignments')
                in (Inr tk',
                    \<lparr>tasks = tasks', task_assignments = assignments',
                     notifications = notifications db @ added\<rparr>))))"

text \<open>
  Outcomes of an assignment update, read off the returned pair: \<open>rejected code\<close> is an
  error of that status code with the table left as it was; \<open>version_bumped\<close> is a
  success whose row of the given id (as \<open>single\<close> reads it) carries the stored version
  plus one, every row of another id being as before.
\<close>

definition rejected ::
  "int \<Rightarrow> task_assignment list \<Rightarrow> (error + task_assignment list) \<times> task_assignment list \<Rightarrow> bool" where
  "rejected code tbl res =
     (case fst res of Inl e \<Rightarrow> status_code e = code \<and> snd res = tbl | Inr rows \<Rightarrow> False)"

definition version_bumped ::
  "task_assignment list \<Rightarrow> int \<Rightarrow> (error + task_assignment list) \<times> task_assignment list \<Rightarrow> bool" where
  "version_bumped tbl assignment_id res =
     (case fst res of
        Inl e \<Rightarrow> False
      | Inr rows \<Rightarrow>
          (case single tbl assignment_id of
             None \<Rightarrow> False
           | Some current \<Rightarrow>
               (case single (snd res) assignment_id of
                  None \<Rightarrow> False
                | Some current' \<Rightarrow>
                    version current' = version current + 1
                    \<and> filter (\<lambda>r. ta_id r \<noteq> assignment_id) (snd res)
                        = filter (\<lambda>r. ta_id r \<noteq> assignment_id) tbl)))"

section \<open>Subdepartments (\<open>subdepartments.py\<close>)\<close>

text \<open>
  The rows of \<open>models.SubDepartment\<close>, \<open>models.User\<close> and \<open>models.Task\<close>, with the
  columns the handlers below read or write. \<open>db\<close> is the session: the three tables.
  A session that raises before \<open>db.commit()\<close> leaves the tables as they were.
\<close>

record subdepartment =
  sd_id :: int
  name :: "string option"
  description :: "string option"
  department_id :: int
  manager_id :: "int option"
  parent_id :: "int option"
  sd_updated_at :: "real option"

record user =
  u_id :: int
  u_department_id :: int
  subdepartment_id :: "int option"

record db =
  subdepartments :: "subdepartment list"
  users :: "user list"
  db_tasks :: "task list"















section \<open>Theorems\<close>

subsection \<open>Change over period\<close>

lemma round_half_even_error: "\<bar>of_int (round_half_even m) - m\<bar> \<le> 1 / 2"
proof -
  define f where "f = floor m"
  define r where "r = m - of_int f"
  have r: "0 \<le> r" "r < 1" unfolding r_def f_def by linarith+
  have m: "m = of_int f + r" by (simp add: r_def)
  have "round_half_even m = (if r < 1 / 2 then f else if r > 1 / 2 then f + 1
                             else if even f then f else f + 1)"
    by (simp add: round_half_even_def Let_def f_def r_def)
  then have "of_int (round_half_even m) - m = (if r < 1 / 2 then - r else if r > 1 / 2 then 1 - r
                             else if even f then - r else 1 - r)"
    using m by simp
  then show ?thesis using r by (simp split: if_splits)
qed

lemma binary64_error: "\<bar>binary64 x - x\<bar> \<le> \<bar>x\<bar> / 2 ^ 53"
proof (cases "x = 0")
  case True
  then show ?thesis by (simp add: binary64_def)
next
  case False
  define L where "L = floor (log 2 \<bar>x\<bar>)"
  define u :: real where "u = 2 powr of_int (L - 52)"
  define m :: real where "m = \<bar>x\<bar> / u"
  have upos: "0 < u" by (simp add: u_def)
  have b: "binary64 x = sgn x * of_int (round_half_even m) * u"
    using False by (simp add: binary64_def Let_def L_def u_def m_def)
  have x: "x = sgn x * m * u"
    using upos by (simp add: m_def sgn_if)
  have "binary64 x - x = sgn x * u * (of_int (round_half_even m) - m)"
    by (subst b, subst (2) x) (simp add: algebra_simps)
  then have "\<bar>binary64 x - x\<bar> = u * \<bar>of_int (round_half_even m) - m\<bar>"
    using False upos by (simp add: abs_mult abs_sgn_eq)
  also have "\<dots> \<le> u * (1 / 2)"
    using round_half_even_error [of m] upos by (intro mult_left_mono) simp_all
  finally have e1: "\<bar>binary64 x - x\<bar> \<le> u / 2" by simp
  have "of_int L \<le> log 2 \<bar>x\<bar>" by (simp add: L_def)
  then have "2 powr of_int L \<le> 2 powr log 2 \<bar>x\<bar>" by simp
  also have "\<dots> = \<bar>x\<bar>" using False by simp
  finally have l: "2 powr of_int L \<le> \<bar>x\<bar>" .
  have "u = 2 powr of_int L / 2 ^ 52"
    by (simp add: u_def powr_diff)
  then have "u / 2 = 2 powr of_int L / 2 ^ 53" by simp
  also have "\<dots> \<le> \<bar>x\<bar> / 2 ^ 53" using l by (simp add: divide_right_mono)
  finally show ?thesis using e1 by linarith
qed

text \<open>
  The two roundings are computed exactly where the quotient has no exact binary
  representation: \<open>29 / 100\<close> rounds to \<open>5224175567749775 / 2\<^sup>5\<^sup>4\<close>, whose product
  with \<open>100\<close> rounds to \<open>8162774324609023 / 2\<^sup>4\<^sup>8\<close>, just below \<open>29\<close>.
\<close>

lemma round_half_even_divide:
  assumes "0 < b"
  shows "round_half_even (real_of_int a / real_of_int b) =
     (if 2 * (a mod b) < b then a div b
      else if 2 * (a mod b) > b then a div b + 1
      else if even (a div b) then a div b else a div b + 1)"
proof -
  have fl: "floor (real_of_int a / real_of_int b) = a div b"
    by (rule floor_divide_of_int_eq)
  have "real_of_int a = real_of_int (a div b) * real_of_int b + real_of_int (a mod b)"
    by (metis div_mult_mod_eq of_int_add of_int_mult)
  then have r: "real_of_int a / real_of_int b - real_of_int (a div b)
             = real_of_int (a mod b) / real_of_int b"
    using assms by (simp add: field_simps)
  have lt: "real_of_int (a mod b) / real_of_int b < 1 / 2 \<longleftrightarrow> 2 * (a mod b) < b"
    using assms by (simp add: field_simps) linarith
  have gt: "real_of_int (a mod b) / real_of_int b > 1 / 2 \<longleftrightarrow> 2 * (a mod b) > b"
    using assms by (simp add: field_simps) linarith
  show ?thesis
    unfolding round_half_even_def Let_def fl r lt gt by simp
qed

lemma binary64_pos:
  assumes "2 powr real_of_int L \<le> x" and "x < 2 powr real_of_int (L + 1)"
  shows "binary64 x = real_of_int (round_half_even (x / 2 powr real_of_int (L - 52)))
                       * 2 powr real_of_int (L - 52)"
proof -
  have pos: "0 < x" using assms(1) by (smt (verit) powr_gt_zero)
  have "real_of_int L \<le> log 2 x" using assms(1) pos by (simp add: le_log_iff)
  moreover have "log 2 x < real_of_int L + 1" using assms(2) pos by (simp add: log_less_iff)
  ultimately have "floor (log 2 x) = L" by linarith
  then show ?thesis using pos by (simp add: binary64_def Let_def)
qed


lemma calc_change_129_100: "calc_change 129 100 = 28"
proof -
  note pw = powr_minus powr_numeral inverse_eq_divide
  have "binary64 (29 / 100)
        = real_of_int (round_half_even (29 / 100 / 2 powr real_of_int (- 2 - 52)))
          * 2 powr real_of_int (- 2 - 52)"
    by (rule binary64_pos) (simp_all add: pw)
  also have "29 / 100 / 2 powr real_of_int (- 2 - 52)
             = real_of_int 522417556774977536 / real_of_int 100"
    by (simp add: pw)
  also have "round_half_even (real_of_int 522417556774977536 / real_of_int 100)
             = 5224175567749775"
    by (subst round_half_even_divide) simp_all
  finally have q: "binary64 (29 / 100) = 5224175567749775 / 18014398509481984"
    by (simp add: pw)
  have y: "binary64 (29 / 100) * 100 = 522417556774977500 / 18014398509481984"
    by (simp add: q)
  have "binary64 (522417556774977500 / 18014398509481984)
        = real_of_int (round_half_even
            (522417556774977500 / 18014398509481984 / 2 powr real_of_int (4 - 52)))
          * 2 powr real_of_int (4 - 52)"
    by (rule binary64_pos) (simp_all add: pw)
  also have "522417556774977500 / 18014398509481984 / 2 powr real_of_int (4 - 52)
             = real_of_int 522417556774977500 / real_of_int 64"
    by (simp add: pw)
  also have "round_half_even (real_of_int 522417556774977500 / real_of_int 64)
             = 8162774324609023"
    by (subst round_half_even_divide) simp_all
  finally have r: "binary64 (522417556774977500 / 18014398509481984)
                   = real_of_int 8162774324609023 / real_of_int 281474976710656"
    by (simp add: pw)
  have "floor (real_of_int 8162774324609023 / real_of_int 281474976710656) = (28::int)"
    by (simp only: floor_divide_of_int_eq)
  then have "py_int (real_of_int 8162774324609023 / real_of_int 281474976710656) = 28"
    by (simp add: py_int_def)
  then have "py_int (binary64 (binary64 (29 / 100) * 100)) = 28"
    by (simp only: y r)
  then show ?thesis by (simp add: calc_change_def)
qed

text \<open>
  C10: the helper returns \<open>100\<close> for \<open>previous = 0 < current\<close>, \<open>0\<close> for
  \<open>previous = 0\<close> otherwise, and else \<open>(current - previous) / previous * 100\<close> rounded
  to the nearest integer. The helper of \<open>department_stats.py\<close> applies \<open>int()\<close> where
  its sibling \<open>calculate_change\<close> of \<open>personnel.py\<close> applies \<open>round()\<close>: at
  \<open>current = 5\<close>, \<open>previous = 3\<close> it returns \<open>66\<close>, and the nearest integer is
  \<open>67\<close>.
\<close>

theorem C10_calc_change_5_3:
  "calc_change 5 3 = 66 \<and> round ((real_of_int (5 - 3) / real_of_int 3) * 100) = (67::int)"
proof -
  define q where "q = binary64 (real_of_int (5 - 3) / real_of_int 3)"
  define r where "r = binary64 (q * 100)"
  have "\<bar>q - 2 / 3\<bar> \<le> \<bar>2 / 3\<bar> / 2 ^ 53"
    using binary64_error [of "2 / 3"] by (simp add: q_def)
  moreover have "\<bar>2 / 3 :: real\<bar> / 2 ^ 53 \<le> 1 / 1000000" by simp
  ultimately have "\<bar>q - 2 / 3\<bar> \<le> 1 / 1000000" by linarith
  then have q: "2 / 3 - 1 / 1000000 \<le> q" "q \<le> 2 / 3 + 1 / 1000000"
    by linarith+
  have "\<bar>r - q * 100\<bar> \<le> \<bar>q * 100\<bar> / 2 ^ 53"
    unfolding r_def by (rule binary64_error)
  moreover have "\<bar>q * 100\<bar> \<le> 67" using q by linarith
  then have "\<bar>q * 100\<bar> / 2 ^ 53 \<le> 67 / 2 ^ 53"
    by (rule divide_right_mono) simp
  moreover have "(67 :: real) / 2 ^ 53 \<le> 1 / 1000" by simp
  ultimately have "\<bar>r - q * 100\<bar> \<le> 1 / 1000" by linarith
  then have r: "66 \<le> r" "r < 67" using q by linarith+
  then have "floor r = 66" by linarith
  then have "py_int r = 66" using r by (simp add: py_int_def)
  then have a: "calc_change 5 3 = 66" by (simp add: calc_change_def q_def r_def)
  have b: "round ((real_of_int (5 - 3) / real_of_int 3) * 100) = (67::int)"
    using floor_divide_of_int_eq [of 403 6, where ?'a = real] by (simp add: round_def)
  from a b show ?thesis by simp
qed

subsection \<open>Workload score\<close>

text \<open>
  C9: for every user the workload score is \<open>base * weight_factor\<close> with
  \<open>base = min (active_task_count * 10) 100\<close> and
  \<open>weight_factor = min (weighted_load / active_task_count) 2\<close>, where
  \<open>weighted_load\<close> sums the weights Critical 3, High 2, Medium 1, Low 0 over the user's
  active tasks; three active tasks of weighted load five score \<open>50\<close>. For a user with
  three active assignments of priorities Critical, High and Low the query yields the
  aggregates \<open>3\<close> and \<open>5\<close>, and \<open>calculate_workload_score\<close> gives \<open>50\<close> for them,
  but the handler raises \<open>ValueError\<close> before it calls the function: whatever the rows,
  it returns the empty list or raises, and no user gets a score.
\<close>

theorem C9_workload_distribution_raises:
  "team_workload
     [\<lparr>wl_user_id = 7, wl_display_name = ''Ada'', wl_department_id = 1,
        wl_status = ''To Do'', wl_priority = Critical\<rparr>,
      \<lparr>wl_user_id = 7, wl_display_name = ''Ada'', wl_department_id = 1,
        wl_status = ''In Progress'', wl_priority = High\<rparr>,
      \<lparr>wl_user_id = 7, wl_display_name = ''Ada'', wl_department_id = 1,
        wl_status = ''Completed'', wl_priority = Critical\<rparr>,
      \<lparr>wl_user_id = 7, wl_display_name = ''Ada'', wl_department_id = 1,
        wl_status = ''To Do'', wl_priority = Low\<rparr>] 1 = [(7, ''Ada'', 3, 5)]
   \<and> calculate_workload_score 3 5 = 50
   \<and> get_workload_distribution
     [\<lparr>wl_user_id = 7, wl_display_name = ''Ada'', wl_department_id = 1,
        wl_status = ''To Do'', wl_priority = Critical\<rparr>,
      \<lparr>wl_user_id = 7, wl_display_name = ''Ada'', wl_department_id = 1,
        wl_status = ''In Progress'', wl_priority = High\<rparr>,
      \<lparr>wl_user_id = 7, wl_display_name = ''Ada'', wl_department_id = 1,
        wl_status = ''Completed'', wl_priority = Critical\<rparr>,
      \<lparr>wl_user_id = 7, wl_display_name = ''Ada'', wl_department_id = 1,
        wl_status = ''To Do'', wl_priority = Low\<rparr>] 1 = Inl ValueError
   \<and> (get_workload_distribution joined dept = Inr []
        \<or> get_workload_distribution joined dept = Inl ValueError)"
proof -
  have t: "team_workload
     [\<lparr>wl_user_id = 7, wl_display_name = ''Ada'', wl_department_id = 1,
        wl_status = ''To Do'', wl_priority = Critical\<rparr>,
      \<lparr>wl_user_id = 7, wl_display_name = ''Ada'', wl_department_id = 1,
        wl_status = ''In Progress'', wl_priority = High\<rparr>,
      \<lparr>wl_user_id = 7, wl_display_name = ''Ada'', wl_department_id = 1,
        wl_status = ''Completed'', wl_priority = Critical\<rparr>,
      \<lparr>wl_user_id = 7, wl_display_name = ''Ada'', wl_department_id = 1,
        wl_status = ''To Do'', wl_priority = Low\<rparr>] 1 = [(7, ''Ada'', 3, 5)]"
    by (simp add: team_workload_def Let_def)
  have c: "calculate_workload_score 3 5 = 50"
    by (simp add: calculate_workload_score_def Let_def)
  have g: "get_workload_distribution joined dept = Inr []
        \<or> get_workload_distribution joined dept = Inl ValueError"
    by (simp add: get_workload_distribution_def split: list.splits)
  show ?thesis
    using t c g by (simp add: get_workload_distribution_def)
qed

subsection \<open>Efficiency score\<close>

lemma efficiency_loop_acc:
  "efficiency_loop xs scores = scores @ efficiency_loop xs []"
proof (induction xs arbitrary: scores)
  case Nil
  show ?case by simp
next
  case (Cons x xs)
  obtain a t where x: "x = (a, t)" by (cases x)
  have step: "efficiency_loop xs (scores @ [w]) = scores @ efficiency_loop xs [w]" for w
    using Cons.IH [of "scores @ [w]"] Cons.IH [of "[w]"] by simp
  show ?case
    using Cons.IH [of scores] step
    by (simp add: x split: option.splits)
qed

lemma efficiency_loop_comprehension:
  "efficiency_loop xs [] =
     map (\<lambda>(a, t). weighted_score (the (started_at a)) (the (completed_at a)) (t_priority t))
       (filter (\<lambda>(a, t). started_at a \<noteq> None \<and> completed_at a \<noteq> None) xs)"
proof (induction xs)
  case Nil
  show ?case by simp
next
  case (Cons x xs)
  obtain a t where x: "x = (a, t)" by (cases x)
  show ?case
    using Cons.IH efficiency_loop_acc [of xs "[w]" for w]
    by (auto simp: x split: option.splits)
qed

text \<open>
  C8, as stated: each assignment with both timestamps set contributes
  \<open>min (432000 / actual_duration) 2\<close> times its priority weight. The code takes the
  efficiency \<open>1\<close> when the actual duration is not positive: one Critical assignment
  completed five seconds before it was started scores \<open>1 * 4 * 25 = 100\<close>, where the
  stated formula gives \<open>min (-86400) 2 * 4 * 25\<close>.
\<close>

theorem C8_counterexample:
  "calculate_efficiency_score
     [(\<lparr>ta_id = 1, task_id = 1, assigned_to = 1, status = ''In Progress'', progress = 25,
        comments = None, started_at = Some 10, completed_at = Some 5, version = 3,
        updated_at = 10\<rparr>,
       \<lparr>t_id = 1, t_department_id = 1, t_subdepartment_id = None, t_priority = Critical,
        t_version = 1, t_updated_at = 0\<rparr>)] = 100
   \<and> min (432000 / (5 - 10)) 2 * 4 / 1 * 25 = (- 8640000 :: real)"
  by (simp add: calculate_efficiency_score_def weighted_score_def Let_def)

text \<open>
  C8, amended: over the assignments with both \<open>started_at\<close> and \<open>completed_at\<close> set,
  the efficiency is \<open>min (432000 / actual_duration) 2\<close> when the actual duration is
  positive and \<open>1\<close> otherwise, the weighted score is the efficiency times the priority
  weight (Critical 4, High 3, Medium 2, Low 1), and the final score is the mean of the
  weighted scores times \<open>25\<close>, or \<open>0\<close> when no assignment qualifies. One Critical
  assignment of actual duration \<open>216000\<close> seconds scores \<open>200\<close>.
\<close>

theorem C8_efficiency_score:
  "calculate_efficiency_score assignments =
     (let qualifying = filter (\<lambda>(a, t). started_at a \<noteq> None \<and> completed_at a \<noteq> None) assignments;
          weighted = map (\<lambda>(a, t).
             (let actual_duration = the (completed_at a) - the (started_at a)
              in (if actual_duration > 0 then min (432000 / actual_duration) 2 else 1)
                 * (case t_priority t of Critical \<Rightarrow> 4 | High \<Rightarrow> 3 | Medium \<Rightarrow> 2 | Low \<Rightarrow> 1)))
             qualifying
      in if qualifying = [] then 0 else sum_list weighted / real (length qualifying) * 25)
   \<and> (started_at a = Some s \<and> completed_at a = Some (s + 216000) \<and> t_priority t = Critical
        \<longrightarrow> calculate_efficiency_score [(a, t)] = 200)"
proof -
  have w: "weighted_score s' c p =
      (let actual_duration = c - s'
       in (if actual_duration > 0 then min (432000 / actual_duration) 2 else 1)
          * (case p of Critical \<Rightarrow> 4 | High \<Rightarrow> 3 | Medium \<Rightarrow> 2 | Low \<Rightarrow> 1))" for s' c p
    by (cases p) (simp_all add: weighted_score_def Let_def)
  have m: "(\<lambda>(a, t). weighted_score (the (started_at a)) (the (completed_at a)) (t_priority t))
         = (\<lambda>(a, t).
             (let actual_duration = the (completed_at a) - the (started_at a)
              in (if actual_duration > 0 then min (432000 / actual_duration) 2 else 1)
                 * (case t_priority t of Critical \<Rightarrow> 4 | High \<Rightarrow> 3 | Medium \<Rightarrow> 2 | Low \<Rightarrow> 1)))"
    by (simp only: w)
  have first: "calculate_efficiency_score assignments =
     (let qualifying = filter (\<lambda>(a, t). started_at a \<noteq> None \<and> completed_at a \<noteq> None) assignments;
          weighted = map (\<lambda>(a, t).
             (let actual_duration = the (completed_at a) - the (started_at a)
              in (if actual_duration > 0 then min (432000 / actual_duration) 2 else 1)
                 * (case t_priority t of Critical \<Rightarrow> 4 | High \<Rightarrow> 3 | Medium \<Rightarrow> 2 | Low \<Rightarrow> 1)))
             qualifying
      in if qualifying = [] then 0 else sum_list weighted / real (length qualifying) * 25)"
    unfolding calculate_efficiency_score_def efficiency_loop_comprehension m
    by (auto simp: Let_def)
  have second: "started_at a = Some s \<and> completed_at a = Some (s + 216000) \<and> t_priority t = Critical
        \<longrightarrow> calculate_efficiency_score [(a, t)] = 200"
    by (simp add: calculate_efficiency_score_def weighted_score_def Let_def)
  from first second show ?thesis by blast
qed

theorem C8_efficiency_score_witness:
  "calculate_efficiency_score
     [(\<lparr>ta_id = 1, task_id = 1, assigned_to = 1, status = ''Completed'', progress = 100,
        comments = None, started_at = Some 1000, completed_at = Some 217000, version = 3,
        updated_at = 217000\<rparr>,
       \<lparr>t_id = 1, t_department_id = 1, t_subdepartment_id = None, t_priority = Critical,
        t_version = 1, t_updated_at = 0\<rparr>)] = 200"
  using C8_efficiency_score
    [of "[]" "\<lparr>ta_id = 1, task_id = 1, assigned_to = 1, status = ''Completed'', progress = 100,
        comments = None, started_at = Some 1000, completed_at = Some 217000, version = 3,
        updated_at = 217000\<rparr>" 1000
       "\<lparr>t_id = 1, t_department_id = 1, t_subdepartment_id = None, t_priority = Critical,
        t_version = 1, t_updated_at = 0\<rparr>"]
  by simp

subsection \<open>Assignment versions\<close>

lemma single_update_eq:
  assumes "\<And>r. ta_id (f r) = ta_id r"
  shows "single (update_eq f aid tbl) aid = map_option f (single tbl aid)"
  using assms by (induction tbl) (auto simp: single_def update_eq_def)

lemma others_update_eq:
  assumes "\<And>r. ta_id (f r) = ta_id r"
  shows "filter (\<lambda>r. ta_id r \<noteq> aid) (update_eq f aid tbl) = filter (\<lambda>r. ta_id r \<noteq> aid) tbl"
  using assms by (induction tbl) (auto simp: update_eq_def)

lemma ta_id_status_updates: "ta_id (status_updates now s cur r) = ta_id r"
  by (simp add: status_updates_def Let_def)

lemma version_status_updates: "version (status_updates now s cur r) = version cur + 1"
  by (simp add: status_updates_def Let_def)


lemma full_update_bumps:
  "if single tbl aid = None then rejected 404 tbl (update_task_assignment now tbl aid body)
   else version_bumped tbl aid (update_task_assignment now tbl aid body)"
  by (auto simp: update_task_assignment_def rejected_def version_bumped_def Let_def
      single_update_eq others_update_eq split: option.splits)

lemma status_update_bumps:
  "if st \<notin> set [''To Do'', ''In Progress'', ''Under Review'', ''Completed'']
   then rejected 400 tbl (update_assignment_status now tbl aid st)
   else if single tbl aid = None then rejected 404 tbl (update_assignment_status now tbl aid st)
   else version_bumped tbl aid (update_assignment_status now tbl aid st)"
proof -
  have a: "single (update_eq (status_updates now st cur) aid tbl) aid
           = map_option (status_updates now st cur) (single tbl aid)" for cur
    by (rule single_update_eq) (rule ta_id_status_updates)
  have b: "filter (\<lambda>r. ta_id r \<noteq> aid) (update_eq (status_updates now st cur) aid tbl)
           = filter (\<lambda>r. ta_id r \<noteq> aid) tbl" for cur
    by (rule others_update_eq) (rule ta_id_status_updates)
  show ?thesis
  proof (cases "st \<in> set [''To Do'', ''In Progress'', ''Under Review'', ''Completed'']")
    case False
    then show ?thesis
      by (simp add: update_assignment_status_def rejected_def)
  next
    case valid: True
    show ?thesis
    proof (cases "single tbl aid")
      case None
      have "update_assignment_status now tbl aid st
            = (Inl (HTTPException 404 ''Assignment not found''), tbl)"
        using valid None unfolding update_assignment_status_def by simp
      then show ?thesis using valid None by (simp add: rejected_def)
    next
      case (Some cur)
      have "update_assignment_status now tbl aid st
            = (Inr (response_data (update_eq (status_updates now st cur) aid tbl) aid),
               update_eq (status_updates now st cur) aid tbl)"
        using valid Some unfolding update_assignment_status_def by (simp add: Let_def)
      then have "version_bumped tbl aid (update_assignment_status now tbl aid st)"
        using Some by (simp add: version_bumped_def a b version_status_updates)
      then show ?thesis using valid Some by simp
    qed
  qed
qed

lemma progress_update_bumps:
  "if \<not> (0 \<le> p \<and> p \<le> 100)
   then rejected 400 tbl (update_assignment_progress now tbl aid p)
   else if single tbl aid = None then rejected 404 tbl (update_assignment_progress now tbl aid p)
   else version_bumped tbl aid (update_assignment_progress now tbl aid p)"
  by (auto simp: update_assignment_progress_def rejected_def version_bumped_def Let_def
      single_update_eq others_update_eq split: option.splits)

text \<open>
  C2, as stated: a write is accepted only if the version the caller presents equals the
  stored version, and a mismatch fails with Conflict. The full update ignores the
  presented version: a row stored at version \<open>5\<close> and a body presenting version
  \<open>1\<close> give a success that stores the body at version \<open>6\<close>.
\<close>

theorem C2_counterexample:
  "update_task_assignment 100
     [\<lparr>ta_id = 1, task_id = 1, assigned_to = 1, status = ''To Do'', progress = 0,
        comments = None, started_at = None, completed_at = None, version = 5,
        updated_at = 10\<rparr>] 1
     \<lparr>b_task_id = 1, b_assigned_to = 1, b_status = ''In Progress'', b_progress = 40,
       b_comments = None, b_started_at = None, b_completed_at = None, b_version = 1\<rparr>
   = (Inr [\<lparr>ta_id = 1, task_id = 1, assigned_to = 1, status = ''In Progress'', progress = 40,
        comments = None, started_at = None, completed_at = None, version = 6,
        updated_at = 100\<rparr>],
      [\<lparr>ta_id = 1, task_id = 1, assigned_to = 1, status = ''In Progress'', progress = 40,
        comments = None, started_at = None, completed_at = None, version = 6,
        updated_at = 100\<rparr>])"
  by (simp add: update_task_assignment_def single_def update_eq_def response_data_def Let_def)

text \<open>
  C2, amended: each of the three updates of an assignment (full, status, progress)
  succeeds whenever the row exists and the input is valid, whatever version the caller
  presents, and then stores the version it read plus one, leaving the rows of other ids
  as they were; otherwise it fails with 400 (invalid status, progress out of range) or
  404 (no such row) and leaves the table as it was. No outcome is a Conflict.
\<close>

theorem C2_version_increment:
  "(if single tbl aid = None then rejected 404 tbl (update_task_assignment now tbl aid body)
    else version_bumped tbl aid (update_task_assignment now tbl aid body))
   \<and> (if st \<notin> set [''To Do'', ''In Progress'', ''Under Review'', ''Completed'']
      then rejected 400 tbl (update_assignment_status now tbl aid st)
      else if single tbl aid = None then rejected 404 tbl (update_assignment_status now tbl aid st)
      else version_bumped tbl aid (update_assignment_status now tbl aid st))
   \<and> (if \<not> (0 \<le> p \<and> p \<le> 100)
      then rejected 400 tbl (update_assignment_progress now tbl aid p)
      else if single tbl aid = None then rejected 404 tbl (update_assignment_progress now tbl aid p)
      else version_bumped tbl aid (update_assignment_progress now tbl aid p))"
  using full_update_bumps [of tbl aid now body] status_update_bumps [of st tbl now aid]
    progress_update_bumps [of p tbl now aid]
  by blast

theorem C2_version_increment_witness:
  "version_bumped
     [\<lparr>ta_id = 1, task_id = 1, assigned_to = 1, status = ''To Do'', progress = 0,
        comments = None, started_at = None, completed_at = None, version = 5,
        updated_at = 10\<rparr>] 1
     (update_task_assignment 100
        [\<lparr>ta_id = 1, task_id = 1, assigned_to = 1, status = ''To Do'', progress = 0,
           comments = None, started_at = None, completed_at = None, version = 5,
           updated_at = 10\<rparr>] 1
        \<lparr>b_task_id = 1, b_assigned_to = 1, b_status = ''In Progress'', b_progress = 40,
          b_comments = None, b_started_at = None, b_completed_at = None, b_version = 1\<rparr>)
   \<and> rejected 404 [] (update_assignment_status 100 [] 1 ''Completed'')
   \<and> rejected 400 [] (update_assignment_progress 100 [] 1 101)"
  using C2_version_increment
    [of "[\<lparr>ta_id = 1, task_id = 1, assigned_to = 1, status = ''To Do'', progress = 0,
        comments = None, started_at = None, completed_at = None, version = 5,
        updated_at = 10\<rparr>]" 1 100
      "\<lparr>b_task_id = 1, b_assigned_to = 1, b_status = ''In Progress'', b_progress = 40,
          b_comments = None, b_started_at = None, b_completed_at = None, b_version = 1\<rparr>"
      "''Completed''" 101]
    C2_version_increment [of "[]" 1 100 undefined "''Completed''" 101]
  by (simp add: single_def)

subsection \<open>Timestamps of a repeated status\<close>

lemma status_update_result:
  assumes "single tbl aid = Some cur"
    and "st \<in> set [''To Do'', ''In Progress'', ''Under Review'', ''Completed'']"
  shows "snd (update_assignment_status now tbl aid st)
           = update_eq (status_updates now st cur) aid tbl"
    and "single (snd (update_assignment_status now tbl aid st)) aid
           = Some (status_updates now st cur cur)"
proof -
  show a: "snd (update_assignment_status now tbl aid st)
           = update_eq (status_updates now st cur) aid tbl"
    using assms unfolding update_assignment_status_def by (simp add: Let_def)
  have "single (update_eq (status_updates now st cur) aid tbl) aid
        = map_option (status_updates now st cur) (single tbl aid)"
    by (rule single_update_eq) (rule ta_id_status_updates)
  then show "single (snd (update_assignment_status now tbl aid st)) aid
           = Some (status_updates now st cur cur)"
    using a assms(1) by simp
qed

lemma started_at_set_assignment_status:
  "started_at a \<noteq> None \<Longrightarrow> started_at (set_assignment_status now ''In Progress'' pr a) = started_at a"
  by (simp add: set_assignment_status_def Let_def)

lemma version_set_assignment_status:
  "version (set_assignment_status now st pr a) = version a"
  by (simp add: set_assignment_status_def Let_def)

lemma task_status_assignments:
  "task_assignments (snd (update_task_status now db tid st)) =
     (case find (\<lambda>t. t_id t = tid) (tasks db) of
        None \<Rightarrow> task_assignments db
      | Some tk \<Rightarrow>
          (case status_progress st of
             None \<Rightarrow> task_assignments db
           | Some pr \<Rightarrow>
               map (\<lambda>a. if task_id a = tid then set_assignment_status now st pr a else a)
                 (task_assignments db)))"
  unfolding update_task_status_def by (simp add: Let_def split: option.splits)

text \<open>
  C3, as stated: through a status-update operation, a repeated \<open>Completed\<close> leaves an
  already-set \<open>completed_at\<close> unchanged and the assignment's version increments on each
  call. The task-level status update of \<open>tasks.py\<close> does neither: an assignment
  completed at \<open>50\<close> with version \<open>2\<close> comes out of a second \<open>Completed\<close> at time
  \<open>90\<close> with \<open>completed_at = 90\<close> and version \<open>2\<close>.
\<close>

theorem C3_counterexample:
  "task_assignments (snd (update_task_status 90
     \<lparr>tasks = [\<lparr>t_id = 1, t_department_id = 1, t_subdepartment_id = None,
                 t_priority = High, t_version = 1, t_updated_at = 0\<rparr>],
       task_assignments =
         [\<lparr>ta_id = 7, task_id = 1, assigned_to = 3, status = ''Completed'', progress = 100,
            comments = None, started_at = Some 20, completed_at = Some 50, version = 2,
            updated_at = 50\<rparr>],
       notifications = []\<rparr> 1 ''Completed''))
   = [\<lparr>ta_id = 7, task_id = 1, assigned_to = 3, status = ''Completed'', progress = 100,
        comments = None, started_at = Some 20, completed_at = Some 90, version = 2,
        updated_at = 90\<rparr>]"
  by (simp add: task_status_assignments set_assignment_status_def status_progress.simps Let_def)

text \<open>
  C3, amended: through the assignment-level status update, \<open>Completed\<close> leaves an
  already-set \<open>completed_at\<close> unchanged and \<open>In Progress\<close> leaves an already-set
  \<open>started_at\<close> unchanged, the version incrementing by one on every call; two
  \<open>Completed\<close> in a row set \<open>completed_at\<close> on the first call only and raise the version
  by two. Through the task-level status update, \<open>In Progress\<close> leaves an already-set
  \<open>started_at\<close> of every assignment unchanged, and no status written through it
  changes the version of any assignment.
\<close>

theorem C3_timestamps_kept:
  "(single tbl aid = Some cur \<and> completed_at cur = Some t \<longrightarrow>
      (\<exists>cur'. single (snd (update_assignment_status now tbl aid ''Completed'')) aid = Some cur'
         \<and> completed_at cur' = Some t \<and> version cur' = version cur + 1))
   \<and> (single tbl aid = Some cur \<and> started_at cur = Some t \<longrightarrow>
      (\<exists>cur'. single (snd (update_assignment_status now tbl aid ''In Progress'')) aid = Some cur'
         \<and> started_at cur' = Some t \<and> version cur' = version cur + 1))
   \<and> (single tbl aid = Some cur \<longrightarrow>
      (\<exists>cur''. single (snd (update_assignment_status now2
                   (snd (update_assignment_status now tbl aid ''Completed'')) aid ''Completed'')) aid
               = Some cur''
         \<and> completed_at cur'' = (case completed_at cur of None \<Rightarrow> Some now | Some c \<Rightarrow> Some c)
         \<and> version cur'' = version cur + 2))
   \<and> (\<forall>i < length (task_assignments db).
        started_at (task_assignments db ! i) \<noteq> None \<longrightarrow>
        started_at (task_assignments (snd (update_task_status now db tid ''In Progress'')) ! i)
          = started_at (task_assignments db ! i))
   \<and> map version (task_assignments (snd (update_task_status now db tid st)))
       = map version (task_assignments db)"
proof -
  have v: "''Completed'' \<in> set [''To Do'', ''In Progress'', ''Under Review'', ''Completed'']"
    "''In Progress'' \<in> set [''To Do'', ''In Progress'', ''Under Review'', ''Completed'']"
    by simp_all
  have a: "single tbl aid = Some cur \<and> completed_at cur = Some t \<longrightarrow>
      (\<exists>cur'. single (snd (update_assignment_status now tbl aid ''Completed'')) aid = Some cur'
         \<and> completed_at cur' = Some t \<and> version cur' = version cur + 1)"
    using status_update_result(2) [OF _ v(1), of tbl aid cur now]
    by (auto simp: status_updates_def Let_def)
  have b: "single tbl aid = Some cur \<and> started_at cur = Some t \<longrightarrow>
      (\<exists>cur'. single (snd (update_assignment_status now tbl aid ''In Progress'')) aid = Some cur'
         \<and> started_at cur' = Some t \<and> version cur' = version cur + 1)"
    using status_update_result(2) [OF _ v(2), of tbl aid cur now]
    by (auto simp: status_updates_def Let_def)
  have c: "single tbl aid = Some cur \<longrightarrow>
      (\<exists>cur''. single (snd (update_assignment_status now2
                   (snd (update_assignment_status now tbl aid ''Completed'')) aid ''Completed'')) aid
               = Some cur''
         \<and> completed_at cur'' = (case completed_at cur of None \<Rightarrow> Some now | Some c \<Rightarrow> Some c)
         \<and> version cur'' = version cur + 2)"
  proof
    assume s: "single tbl aid = Some cur"
    let ?c1 = "status_updates now ''Completed'' cur cur"
    let ?t1 = "snd (update_assignment_status now tbl aid ''Completed'')"
    have s1: "single ?t1 aid = Some ?c1"
      by (rule status_update_result(2) [OF s v(1)])
    have s2: "single (snd (update_assignment_status now2 ?t1 aid ''Completed'')) aid
              = Some (status_updates now2 ''Completed'' ?c1 ?c1)"
      by (rule status_update_result(2) [OF s1 v(1)])
    have "completed_at (status_updates now2 ''Completed'' ?c1 ?c1)
            = (case completed_at cur of None \<Rightarrow> Some now | Some c \<Rightarrow> Some c)"
      by (simp add: status_updates_def Let_def split: option.splits)
    moreover have "version (status_updates now2 ''Completed'' ?c1 ?c1) = version cur + 2"
      by (simp add: version_status_updates)
    ultimately show "\<exists>cur''. single (snd (update_assignment_status now2 ?t1 aid ''Completed'')) aid
               = Some cur''
         \<and> completed_at cur'' = (case completed_at cur of None \<Rightarrow> Some now | Some c \<Rightarrow> Some c)
         \<and> version cur'' = version cur + 2"
      using s2 by blast
  qed
  have d: "\<forall>i < length (task_assignments db).
        started_at (task_assignments db ! i) \<noteq> None \<longrightarrow>
        started_at (task_assignments (snd (update_task_status now db tid ''In Progress'')) ! i)
          = started_at (task_assignments db ! i)"
    by (auto simp: task_status_assignments started_at_set_assignment_status
        split: option.splits)
  have e: "map version (task_assignments (snd (update_task_status now db tid st)))
       = map version (task_assignments db)"
    by (simp add: task_status_assignments version_set_assignment_status split: option.splits)
  from a b c d e show ?thesis by blast
qed

theorem C3_timestamps_kept_witness:
  "\<exists>cur'. single (snd (update_assignment_status 90
       [\<lparr>ta_id = 7, task_id = 1, assigned_to = 3, status = ''Completed'', progress = 100,
          comments = None, started_at = Some 20, completed_at = Some 50, version = 2,
          updated_at = 50\<rparr>] 7 ''Completed'')) 7 = Some cur'
     \<and> completed_at cur' = Some 50 \<and> version cur' = 3"
  using C3_timestamps_kept
    [where tbl = "[\<lparr>ta_id = 7, task_id = 1, assigned_to = 3, status = ''Completed'',
          progress = 100, comments = None, started_at = Some 20, completed_at = Some 50,
          version = 2, updated_at = 50\<rparr>]"
       and aid = 7
       and cur = "\<lparr>ta_id = 7, task_id = 1, assigned_to = 3, status = ''Completed'',
          progress = 100, comments = None, started_at = Some 20, completed_at = Some 50,
          version = 2, updated_at = 50\<rparr>"
       and t = 50 and now = 90]
  by (simp add: single_def)

subsection \<open>Status and progress\<close>

















subsection \<open>Deleting a subdepartment\<close>












subsection \<open>Descendants of a subdepartment\<close>





















subsection \<open>Moving a subdepartment\<close>







end
